theory Spec2Isabelle
  imports Complex_Main "HOL-Library.Word" "HOL-Library.Monad_Syntax"
begin

unbundle bit_operations_syntax

section \<open>Conventions of the embedding\<close>

text \<open>
  The development embeds the PSX reverb plugin: \<^verbatim>\<open>src/dsp/psxverb.c\<close> (the plugin with
  file-scope state, API v1, functions \<^verbatim>\<open>apply_preset\<close>, \<^verbatim>\<open>update_decay\<close>,
  \<^verbatim>\<open>fx_set_param\<close>, \<^verbatim>\<open>fx_process_block\<close>) and the instance-based variant (API v2,
  functions \<^verbatim>\<open>v2_apply_preset\<close>, \<^verbatim>\<open>v2_update_decay\<close>, \<^verbatim>\<open>v2_set_param\<close>,
  \<^verbatim>\<open>v2_get_param\<close>, \<^verbatim>\<open>v2_process_block\<close>).

  \<^item> C \<^verbatim>\<open>float\<close> values are idealised as \<^typ>\<open>real\<close>: rounding, infinities and NaN are
    outside the model. Every statement below is about this idealised arithmetic.
  \<^item> \<^verbatim>\<open>int16_t\<close>/\<^verbatim>\<open>uint16_t\<close> are \<^typ>\<open>16 word\<close> (read with \<^const>\<open>sint\<close> or
    \<^const>\<open>uint\<close>), \<^verbatim>\<open>uint32_t\<close>/\<^verbatim>\<open>int32_t\<close> are \<^typ>\<open>32 word\<close>, C \<^verbatim>\<open>int\<close> loop
    counters and indices that provably stay small are \<^typ>\<open>int\<close>.
  \<^item> Behaviour that C leaves undefined (a float converted to an integer type that cannot
    hold it, an array access outside the array) is the value \<^const>\<open>None\<close>.
\<close>

subsection \<open>Float to integer conversion\<close>

text \<open>A C cast from \<^verbatim>\<open>float\<close> to an integer type discards the fraction (rounds toward zero).\<close>

definition c_trunc :: "real \<Rightarrow> int" where
  "c_trunc x = (if 0 \<le> x then \<lfloor>x\<rfloor> else \<lceil>x\<rceil>)"

text \<open>\<^verbatim>\<open>(int32_t)x\<close>: defined only when the truncated value fits into 32 bits.\<close>

definition float_to_int32 :: "real \<Rightarrow> int option" where
  "float_to_int32 x =
     (let t = c_trunc x in if - 2147483648 \<le> t \<and> t \<le> 2147483647 then Some t else None)"


section \<open>Halfband 39-tap FIR filter\<close>





text \<open>
  \<^verbatim>\<open>halfband_t\<close>: a ring of 64 samples and the write cursor. Every update masks the cursor
  with \<^verbatim>\<open>HB_STATE_MASK\<close>, so it stays in \<open>0..63\<close>.
\<close>

record halfband_t =
  state :: "real list"
  pos :: int

definition halfband_init :: "halfband_t" where
  "halfband_init = \<lparr> state = replicate 64 0, pos = 0 \<rparr>"




section \<open>Work area\<close>

definition WORK_MAX_SIZE :: "32 word" where
  "WORK_MAX_SIZE = 65536"

definition kInt16ToFloat :: real where
  "kInt16ToFloat = 1 / 32768"

definition kFloatToInt16 :: real where
  "kFloatToInt16 = 32768"

text \<open>
  \<^verbatim>\<open>workarea_t\<close>. The field \<^verbatim>\<open>buf\<close> points to the sample storage (\<^verbatim>\<open>g_work_buffer\<close>, or
  the instance's \<^verbatim>\<open>work_buffer\<close>, both of \<^verbatim>\<open>WORK_MAX_SIZE\<close> elements); the model keeps the
  storage itself in its place. The C field \<^verbatim>\<open>base\<close> is \<open>base_cursor\<close> here, since the
  instance structure has a field \<^verbatim>\<open>base\<close> of its own.
\<close>

record workarea_t =
  buf :: "16 word list"
  size_mask :: "32 word"
  base_cursor :: "32 word"

text \<open>
  The \<^verbatim>\<open>int32_t\<close> offset is converted to \<^verbatim>\<open>uint32_t\<close> by the addition, which keeps its
  bits; the sum wraps modulo \<open>2^32\<close>.
\<close>

definition workarea_index :: "workarea_t \<Rightarrow> 32 word \<Rightarrow> nat" where
  "workarea_index wa offset = unat ((base_cursor wa + offset) AND size_mask wa)"

definition workarea_read_relative :: "workarea_t \<Rightarrow> 32 word \<Rightarrow> real option" where
  "workarea_read_relative wa offset =
     (let idx = workarea_index wa offset
      in if idx < length (buf wa)
         then Some (real_of_int (sint (buf wa ! idx)) * kInt16ToFloat)
         else None)"

definition workarea_write_relative :: "workarea_t \<Rightarrow> 32 word \<Rightarrow> real \<Rightarrow> workarea_t option" where
  "workarea_write_relative wa offset v =
     (case float_to_int32 (v * kFloatToInt16) of
        None \<Rightarrow> None
      | Some val_int0 \<Rightarrow>
          (let val_int1 = (if val_int0 > 32767 then 32767 else val_int0);
               val_int = (if val_int1 < - 32768 then - 32768 else val_int1);
               idx = workarea_index wa offset
           in if idx < length (buf wa)
              then Some (wa\<lparr> buf := (buf wa)[idx := word_of_int val_int] \<rparr>)
              else None))"


text \<open>
  \<^verbatim>\<open>workarea_init\<close> (v1): the \<^verbatim>\<open>memset\<close> clears the first \<open>size_pow2\<close> elements of the storage.
\<close>

definition zero_prefix :: "nat \<Rightarrow> 16 word list \<Rightarrow> 16 word list" where
  "zero_prefix n xs = replicate (min n (length xs)) 0 @ drop n xs"

definition workarea_init :: "workarea_t \<Rightarrow> 32 word \<Rightarrow> workarea_t" where
  "workarea_init wa size_pow2 =
     \<lparr> buf = zero_prefix (unat size_pow2) (buf wa), size_mask = size_pow2 - 1, base_cursor = 0 \<rparr>"

section \<open>Presets\<close>

text \<open>
  \<^verbatim>\<open>psx_preset_t\<close> and \<^verbatim>\<open>scaled_preset_t\<close>. Both C structures declare the same 22 address and
  displacement fields (\<^verbatim>\<open>uint16_t\<close>); they are declared once, in \<open>psx_layout\<close>, which both
  records extend. The volume registers are \<^verbatim>\<open>int16_t\<close>, read with \<^const>\<open>sint\<close>.
\<close>

record psx_layout =
  dAPF1 :: "16 word"
  dAPF2 :: "16 word"
  dLSAME :: "16 word"
  dRSAME :: "16 word"
  dLDIFF :: "16 word"
  dRDIFF :: "16 word"
  mLSAME :: "16 word"
  mRSAME :: "16 word"
  mLDIFF :: "16 word"
  mRDIFF :: "16 word"
  mLCOMB1 :: "16 word"
  mRCOMB1 :: "16 word"
  mLCOMB2 :: "16 word"
  mRCOMB2 :: "16 word"
  mLCOMB3 :: "16 word"
  mRCOMB3 :: "16 word"
  mLCOMB4 :: "16 word"
  mRCOMB4 :: "16 word"
  mLAPF1 :: "16 word"
  mRAPF1 :: "16 word"
  mLAPF2 :: "16 word"
  mRAPF2 :: "16 word"

record psx_preset_t = psx_layout +
  vIIR :: "16 word"
  vCOMB1 :: "16 word"
  vCOMB2 :: "16 word"
  vCOMB3 :: "16 word"
  vCOMB4 :: "16 word"
  vWALL :: "16 word"
  vAPF1 :: "16 word"
  vAPF2 :: "16 word"
  vLIN :: "16 word"
  vRIN :: "16 word"
  vLOUT :: "16 word"
  vROUT :: "16 word"
  work_size :: "32 word"
  name :: string

record scaled_preset_t = psx_layout +
  vIIR_f :: real
  vCOMB1_f :: real
  vCOMB2_f :: real
  vCOMB3_f :: real
  vCOMB4_f :: real
  vWALL_f :: real
  vAPF1_f :: real
  vAPF2_f :: real
  vLIN_f :: real
  vRIN_f :: real
  vLOUT_f :: real
  vROUT_f :: real

text \<open>Room.\<close>

definition preset_room :: psx_preset_t where
  "preset_room =
   \<lparr> dAPF1 = 0x007D, dAPF2 = 0x005B, dLSAME = 0x0334, dRSAME = 0x01B5, dLDIFF = 0x0000,
     dRDIFF = 0x0000, mLSAME = 0x04D6, mRSAME = 0x0333, mLDIFF = 0x0000, mRDIFF = 0x0000,
     mLCOMB1 = 0x03F0, mRCOMB1 = 0x0227, mLCOMB2 = 0x0374, mRCOMB2 = 0x01EF,
     mLCOMB3 = 0x0000, mRCOMB3 = 0x0000, mLCOMB4 = 0x0000, mRCOMB4 = 0x0000,
     mLAPF1 = 0x01B4, mRAPF1 = 0x0136, mLAPF2 = 0x00B8, mRAPF2 = 0x005C, vIIR = 0x6D80,
     vCOMB1 = 0x54B8, vCOMB2 = 0xBED0, vCOMB3 = 0x0000, vCOMB4 = 0x0000, vWALL = 0xBA80,
     vAPF1 = 0x5800, vAPF2 = 0x5300, vLIN = 0x8000, vRIN = 0x8000, vLOUT = 0x8000,
     vROUT = 0x8000, work_size = 0x26C0, name = ''Room'' \<rparr>"

text \<open>Studio Small.\<close>

definition preset_studio_s :: psx_preset_t where
  "preset_studio_s =
   \<lparr> dAPF1 = 0x0033, dAPF2 = 0x0025, dLSAME = 0x031C, dRSAME = 0x025D, dLDIFF = 0x018F,
     dRDIFF = 0x00B5, mLSAME = 0x03E4, mRSAME = 0x031B, mLDIFF = 0x025C, mRDIFF = 0x018E,
     mLCOMB1 = 0x03A4, mRCOMB1 = 0x02AF, mLCOMB2 = 0x0372, mRCOMB2 = 0x0266,
     mLCOMB3 = 0x022F, mRCOMB3 = 0x0135, mLCOMB4 = 0x01D2, mRCOMB4 = 0x00B7,
     mLAPF1 = 0x00B4, mRAPF1 = 0x0080, mLAPF2 = 0x004C, mRAPF2 = 0x0026, vIIR = 0x70F0,
     vCOMB1 = 0x4FA8, vCOMB2 = 0xBCE0, vCOMB3 = 0x4410, vCOMB4 = 0xC0F0, vWALL = 0x9C00,
     vAPF1 = 0x5280, vAPF2 = 0x4EC0, vLIN = 0x8000, vRIN = 0x8000, vLOUT = 0x8000,
     vROUT = 0x8000, work_size = 0x1F40, name = ''Studio S'' \<rparr>"

text \<open>Studio Medium.\<close>

definition preset_studio_m :: psx_preset_t where
  "preset_studio_m =
   \<lparr> dAPF1 = 0x00B1, dAPF2 = 0x007F, dLSAME = 0x076C, dRSAME = 0x05ED, dLDIFF = 0x042F,
     dRDIFF = 0x0265, mLSAME = 0x0904, mRSAME = 0x076B, mLDIFF = 0x05EC, mRDIFF = 0x042E,
     mLCOMB1 = 0x0824, mRCOMB1 = 0x065F, mLCOMB2 = 0x07A2, mRCOMB2 = 0x0616,
     mLCOMB3 = 0x050F, mRCOMB3 = 0x0305, mLCOMB4 = 0x0462, mRCOMB4 = 0x02B7,
     mLAPF1 = 0x0264, mRAPF1 = 0x01B2, mLAPF2 = 0x0100, mRAPF2 = 0x0080, vIIR = 0x70F0,
     vCOMB1 = 0x4FA8, vCOMB2 = 0xBCE0, vCOMB3 = 0x4510, vCOMB4 = 0xBEF0, vWALL = 0xB4C0,
     vAPF1 = 0x5280, vAPF2 = 0x4EC0, vLIN = 0x8000, vRIN = 0x8000, vLOUT = 0x8000,
     vROUT = 0x8000, work_size = 0x4840, name = ''Studio M'' \<rparr>"

text \<open>Studio Large.\<close>

definition preset_studio_l :: psx_preset_t where
  "preset_studio_l =
   \<lparr> dAPF1 = 0x00E3, dAPF2 = 0x00A9, dLSAME = 0x0B59, dRSAME = 0x08DA, dLDIFF = 0x05EA,
     dRDIFF = 0x031D, mLSAME = 0x0DFB, mRSAME = 0x0B58, mLDIFF = 0x08D9, mRDIFF = 0x05E9,
     mLCOMB1 = 0x0D09, mRCOMB1 = 0x0A3C, mLCOMB2 = 0x0BD9, mRCOMB2 = 0x0973,
     mLCOMB3 = 0x07EC, mRCOMB3 = 0x04B0, mLCOMB4 = 0x06EF, mRCOMB4 = 0x03D2,
     mLAPF1 = 0x031C, mRAPF1 = 0x0238, mLAPF2 = 0x0154, mRAPF2 = 0x00AA, vIIR = 0x6F60,
     vCOMB1 = 0x4FA8, vCOMB2 = 0xBCE0, vCOMB3 = 0x4510, vCOMB4 = 0xBEF0, vWALL = 0xA680,
     vAPF1 = 0x5680, vAPF2 = 0x52C0, vLIN = 0x8000, vRIN = 0x8000, vLOUT = 0x8000,
     vROUT = 0x8000, work_size = 0x6FE0, name = ''Studio L'' \<rparr>"

text \<open>Hall.\<close>

definition preset_hall :: psx_preset_t where
  "preset_hall =
   \<lparr> dAPF1 = 0x01A5, dAPF2 = 0x0139, dLSAME = 0x11C0, dRSAME = 0x0DC3, dLDIFF = 0x09C2,
     dRDIFF = 0x05C1, mLSAME = 0x15BA, mRSAME = 0x11BB, mLDIFF = 0x0DC0, mRDIFF = 0x09C1,
     mLCOMB1 = 0x14C2, mRCOMB1 = 0x10BD, mLCOMB2 = 0x11BC, mRCOMB2 = 0x0DC1,
     mLCOMB3 = 0x0BC4, mRCOMB3 = 0x07C1, mLCOMB4 = 0x0A00, mRCOMB4 = 0x06CD,
     mLAPF1 = 0x05C0, mRAPF1 = 0x041A, mLAPF2 = 0x0274, mRAPF2 = 0x013A, vIIR = 0x6000,
     vCOMB1 = 0x5000, vCOMB2 = 0x4C00, vCOMB3 = 0xB800, vCOMB4 = 0xBC00, vWALL = 0xC000,
     vAPF1 = 0x6000, vAPF2 = 0x5C00, vLIN = 0x8000, vRIN = 0x8000, vLOUT = 0x8000,
     vROUT = 0x8000, work_size = 0xADE0, name = ''Hall'' \<rparr>"

text \<open>Space Echo.\<close>

definition preset_space_echo :: psx_preset_t where
  "preset_space_echo =
   \<lparr> dAPF1 = 0x033D, dAPF2 = 0x0231, dLSAME = 0x1A32, dRSAME = 0x15EF, dLDIFF = 0x1056,
     dRDIFF = 0x0AE1, mLSAME = 0x1ED6, mRSAME = 0x1A31, mLDIFF = 0x15EE, mRDIFF = 0x1055,
     mLCOMB1 = 0x1D14, mRCOMB1 = 0x183B, mLCOMB2 = 0x1BC2, mRCOMB2 = 0x16B2,
     mLCOMB3 = 0x1334, mRCOMB3 = 0x0F2D, mLCOMB4 = 0x11F6, mRCOMB4 = 0x0C5D,
     mLAPF1 = 0x0AE0, mRAPF1 = 0x07A2, mLAPF2 = 0x0464, mRAPF2 = 0x0232, vIIR = 0x7E00,
     vCOMB1 = 0x5000, vCOMB2 = 0xB400, vCOMB3 = 0xB000, vCOMB4 = 0x4C00, vWALL = 0xB000,
     vAPF1 = 0x6000, vAPF2 = 0x5400, vLIN = 0x8000, vRIN = 0x8000, vLOUT = 0x8000,
     vROUT = 0x8000, work_size = 0xF6C0, name = ''Space Echo'' \<rparr>"

definition g_presets :: "psx_preset_t list" where
  "g_presets = [preset_room, preset_studio_s, preset_studio_m, preset_studio_l, preset_hall, preset_space_echo]"

text \<open>Next power of 2 (\<^verbatim>\<open>uint32_t\<close> arithmetic: \<^verbatim>\<open>v--\<close> and \<^verbatim>\<open>v++\<close> wrap).\<close>

definition next_pow2 :: "32 word \<Rightarrow> 32 word" where
  "next_pow2 v0 =
     (let v1 = v0 - 1;
          v2 = v1 OR drop_bit 1 v1;
          v3 = v2 OR drop_bit 2 v2;
          v4 = v3 OR drop_bit 4 v3;
          v5 = v4 OR drop_bit 8 v4;
          v6 = v5 OR drop_bit 16 v5
      in v6 + 1)"

definition coeff_to_float :: "16 word \<Rightarrow> real" where
  "coeff_to_float coeff = real_of_int (sint coeff) / 32768"

definition clamp_f :: "real \<Rightarrow> real \<Rightarrow> real \<Rightarrow> real" where
  "clamp_f v lo hi = (if v < lo then lo else if v > hi then hi else v)"

definition abs_f :: "real \<Rightarrow> real" where
  "abs_f v = (if v < 0 then - v else v)"

definition max_f :: "real \<Rightarrow> real \<Rightarrow> real" where
  "max_f a b = (if a > b then a else b)"

text \<open>
  \<^verbatim>\<open>scale_preset(src, dst)\<close> assigns every field of \<^verbatim>\<open>*dst\<close>, so the result does not depend
  on the old contents of \<^verbatim>\<open>*dst\<close>.
\<close>

definition scale_preset :: "psx_preset_t \<Rightarrow> scaled_preset_t" where
  "scale_preset src =
     \<lparr> dAPF1 = dAPF1 src, dAPF2 = dAPF2 src, dLSAME = dLSAME src, dRSAME = dRSAME src,
       dLDIFF = dLDIFF src, dRDIFF = dRDIFF src, mLSAME = mLSAME src, mRSAME = mRSAME src,
       mLDIFF = mLDIFF src, mRDIFF = mRDIFF src, mLCOMB1 = mLCOMB1 src,
       mRCOMB1 = mRCOMB1 src, mLCOMB2 = mLCOMB2 src, mRCOMB2 = mRCOMB2 src,
       mLCOMB3 = mLCOMB3 src, mRCOMB3 = mRCOMB3 src, mLCOMB4 = mLCOMB4 src,
       mRCOMB4 = mRCOMB4 src, mLAPF1 = mLAPF1 src, mRAPF1 = mRAPF1 src,
       mLAPF2 = mLAPF2 src, mRAPF2 = mRAPF2 src, vIIR_f = coeff_to_float (vIIR src),
       vCOMB1_f = coeff_to_float (vCOMB1 src), vCOMB2_f = coeff_to_float (vCOMB2 src),
       vCOMB3_f = coeff_to_float (vCOMB3 src), vCOMB4_f = coeff_to_float (vCOMB4 src),
       vWALL_f = coeff_to_float (vWALL src), vAPF1_f = coeff_to_float (vAPF1 src),
       vAPF2_f = coeff_to_float (vAPF2 src), vLIN_f = coeff_to_float (vLIN src),
       vRIN_f = coeff_to_float (vRIN src), vLOUT_f = coeff_to_float (vLOUT src),
       vROUT_f = coeff_to_float (vROUT src) \<rparr>"

text \<open>
  \<^verbatim>\<open>v2_scale_preset(inst, src, dst)\<close> makes the same 34 assignments and does not use
  \<^verbatim>\<open>inst\<close>.
\<close>

definition v2_scale_preset :: "psx_preset_t \<Rightarrow> scaled_preset_t" where
  "v2_scale_preset src = scale_preset src"

text \<open>A zero-filled \<^verbatim>\<open>scaled_preset_t\<close> (static storage, or \<^verbatim>\<open>calloc\<close>).\<close>

definition zero_scaled_preset :: scaled_preset_t where
  "zero_scaled_preset =
     \<lparr> dAPF1 = 0, dAPF2 = 0, dLSAME = 0, dRSAME = 0, dLDIFF = 0, dRDIFF = 0, mLSAME = 0,
       mRSAME = 0, mLDIFF = 0, mRDIFF = 0, mLCOMB1 = 0, mRCOMB1 = 0, mLCOMB2 = 0,
       mRCOMB2 = 0, mLCOMB3 = 0, mRCOMB3 = 0, mLCOMB4 = 0, mRCOMB4 = 0, mLAPF1 = 0,
       mRAPF1 = 0, mLAPF2 = 0, mRAPF2 = 0, vIIR_f = 0, vCOMB1_f = 0, vCOMB2_f = 0,
       vCOMB3_f = 0, vCOMB4_f = 0, vWALL_f = 0, vAPF1_f = 0, vAPF2_f = 0, vLIN_f = 0,
       vRIN_f = 0, vLOUT_f = 0, vROUT_f = 0 \<rparr>"

section \<open>The plugin with file-scope state (API v1)\<close>

text \<open>
  The file-scope variables of \<^verbatim>\<open>src/dsp/psxverb.c\<close>. \<^verbatim>\<open>g_work_buffer\<close> is the storage
  inside \<open>g_work\<close>. The host pointer and logging (\<^verbatim>\<open>fx_log\<close>) change nothing here and are
  left out.
\<close>

record plugin_globals =
  g_preset_idx :: int
  g_decay :: real
  g_mix :: real
  g_input_gain :: real
  g_reverb_level :: real
  g_current :: scaled_preset_t
  g_base :: scaled_preset_t
  g_work :: workarea_t
  g_down_l :: halfband_t
  g_down_r :: halfband_t
  g_up_l :: halfband_t
  g_up_r :: halfband_t

definition update_decay :: "plugin_globals \<Rightarrow> real \<Rightarrow> plugin_globals" where
  "update_decay g norm_decay =
     (let base_wall = max_f (1 / 100000) (abs_f (vWALL_f (g_base g)));
          max_scale = clamp_f (0.99 / base_wall) 0.5 10;
          min_scale = 0.5;
          mid_scale = 1;
          mid_norm = 0.5;
          wall_scale =
            (if norm_decay \<le> mid_norm
             then (let t = norm_decay / mid_norm in min_scale + t * (mid_scale - min_scale))
             else (let t = (norm_decay - mid_norm) / (1 - mid_norm)
                   in mid_scale + t * (max_scale - mid_scale)));
          target = vWALL_f (g_base g) * wall_scale
      in g\<lparr> g_current := (g_current g)\<lparr> vWALL_f := clamp_f target (- 0.995) 0.995 \<rparr> \<rparr>)"

definition update_input_gain :: "plugin_globals \<Rightarrow> real \<Rightarrow> plugin_globals" where
  "update_input_gain g gain =
     (let gain_scale = gain * 2
      in g\<lparr> g_current := (g_current g)\<lparr> vLIN_f := vLIN_f (g_base g) * gain_scale,
                                          vRIN_f := vRIN_f (g_base g) * gain_scale \<rparr> \<rparr>)"

definition update_reverb_level :: "plugin_globals \<Rightarrow> real \<Rightarrow> plugin_globals" where
  "update_reverb_level g level =
     (let level_scale = level * 4
      in g\<lparr> g_current := (g_current g)\<lparr> vLOUT_f := vLOUT_f (g_base g) * level_scale,
                                          vROUT_f := vROUT_f (g_base g) * level_scale \<rparr> \<rparr>)"

text \<open>\<^verbatim>\<open>sizeof(int16_t)\<close> is 2.\<close>

definition apply_preset :: "plugin_globals \<Rightarrow> int \<Rightarrow> plugin_globals" where
  "apply_preset g idx0 =
     (let idx1 = (if idx0 < 0 then 0 else idx0);
          idx = (if idx1 > 5 then 5 else idx1);
          g1 = g\<lparr> g_preset_idx := idx \<rparr>;
          src = g_presets ! nat idx;
          g2 = g1\<lparr> g_base := scale_preset src \<rparr>;
          g3 = g2\<lparr> g_current := g_base g2 \<rparr>;
          ws0 = next_pow2 (work_size src div 2);
          ws = (if ws0 > WORK_MAX_SIZE then WORK_MAX_SIZE else ws0);
          g4 = g3\<lparr> g_work := workarea_init (g_work g3) ws \<rparr>;
          g5 = update_decay g4 (g_decay g4);
          g6 = update_input_gain g5 (g_input_gain g5)
      in update_reverb_level g6 (g_reverb_level g6))"

text \<open>The initialisers of the file-scope variables, and \<^verbatim>\<open>fx_on_load\<close>.\<close>

definition initial_globals :: plugin_globals where
  "initial_globals =
     \<lparr> g_preset_idx = 4, g_decay = 0.8, g_mix = 0.35, g_input_gain = 0.5,
       g_reverb_level = 0.5, g_current = zero_scaled_preset, g_base = zero_scaled_preset,
       g_work = \<lparr> buf = replicate 65536 0, size_mask = 0, base_cursor = 0 \<rparr>,
       g_down_l = \<lparr> state = replicate 64 0, pos = 0 \<rparr>,
       g_down_r = \<lparr> state = replicate 64 0, pos = 0 \<rparr>,
       g_up_l = \<lparr> state = replicate 64 0, pos = 0 \<rparr>,
       g_up_r = \<lparr> state = replicate 64 0, pos = 0 \<rparr> \<rparr>"


section \<open>The instance-based plugin (API v2)\<close>

text \<open>
  \<^verbatim>\<open>psxverb_instance_t\<close>. The pointer \<^verbatim>\<open>work_buffer\<close> and \<^verbatim>\<open>work.buf\<close> name the same
  storage, kept inside \<open>work\<close>.
\<close>

record psxverb_instance_t =
  preset_idx :: int
  decay :: real
  mix :: real
  input_gain :: real
  reverb_level :: real
  current :: scaled_preset_t
  base :: scaled_preset_t
  work :: workarea_t
  down_l :: halfband_t
  down_r :: halfband_t
  up_l :: halfband_t
  up_r :: halfband_t

definition v2_update_decay :: "psxverb_instance_t \<Rightarrow> psxverb_instance_t" where
  "v2_update_decay inst =
     inst\<lparr> current := (current inst)\<lparr> vWALL_f := vWALL_f (base inst) * decay inst \<rparr> \<rparr>"

definition v2_apply_preset :: "psxverb_instance_t \<Rightarrow> int \<Rightarrow> psxverb_instance_t" where
  "v2_apply_preset inst idx =
     (if idx < 0 \<or> idx \<ge> 6 then inst
      else
        (let i1 = inst\<lparr> preset_idx := idx \<rparr>;
             p = g_presets ! nat idx;
             i2 = i1\<lparr> base := v2_scale_preset p \<rparr>;
             i3 = i2\<lparr> current := base i2 \<rparr>;
             in_scale = input_gain i3 * 2;
             i4 = i3\<lparr> current := (current i3)\<lparr> vLIN_f := vLIN_f (base i3) * in_scale,
                                                 vRIN_f := vRIN_f (base i3) * in_scale \<rparr> \<rparr>;
             out_scale = reverb_level i4 * 4;
             i5 = i4\<lparr> current := (current i4)\<lparr> vLOUT_f := vLOUT_f (base i4) * out_scale,
                                                 vROUT_f := vROUT_f (base i4) * out_scale \<rparr> \<rparr>;
             i6 = v2_update_decay i5;
             ws0 = next_pow2 (work_size p);
             ws = (if ws0 > WORK_MAX_SIZE then WORK_MAX_SIZE else ws0)
         in i6\<lparr> work := \<lparr> buf = zero_prefix (unat ws) (buf (work i6)),
                            size_mask = ws - 1, base_cursor = 0 \<rparr> \<rparr>))"

text \<open>
  \<^verbatim>\<open>v2_create_instance\<close> when both allocations succeed (it returns \<^verbatim>\<open>NULL\<close> otherwise):
  \<^verbatim>\<open>calloc\<close> gives zero-filled storage.
\<close>

definition v2_create_instance :: psxverb_instance_t where
  "v2_create_instance =
     v2_apply_preset
       \<lparr> preset_idx = 4, decay = 0.8, mix = 0.35, input_gain = 0.5, reverb_level = 0.5,
         current = zero_scaled_preset, base = zero_scaled_preset,
         work = \<lparr> buf = replicate 65536 0, size_mask = 0, base_cursor = 0 \<rparr>,
         down_l = halfband_init, down_r = halfband_init,
         up_l = halfband_init, up_r = halfband_init \<rparr> 4"


section \<open>C library functions used by the parameter interface\<close>

text \<open>
  \<^verbatim>\<open>atoi\<close>, \<^verbatim>\<open>atof\<close>, \<^verbatim>\<open>strstr\<close> and \<^verbatim>\<open>snprintf\<close> belong to the C library, not to the
  plugin. They are modelled from the C standard, for the inputs the parameter interface
  is about: \<^verbatim>\<open>atoi\<close> and \<^verbatim>\<open>atof\<close> skip white space, read an optional sign and the longest
  decimal prefix (\<^verbatim>\<open>atof\<close>: digits, an optional fraction, an optional exponent); text with
  no such prefix converts to 0. Hexadecimal floats, \<^verbatim>\<open>inf\<close> and \<^verbatim>\<open>nan\<close> are outside the
  model. \<^verbatim>\<open>atoi\<close> of a number that does not fit \<^verbatim>\<open>int\<close> is undefined (\<^const>\<open>None\<close>).
\<close>

definition isspace_c :: "char \<Rightarrow> bool" where
  "isspace_c c = (c \<in> set [CHR 0x20, CHR 0x09, CHR 0x0A, CHR 0x0B, CHR 0x0C, CHR 0x0D])"

definition isdigit_c :: "char \<Rightarrow> bool" where
  "isdigit_c c = (c \<in> set ''0123456789'')"

definition digit_val :: "char \<Rightarrow> nat" where
  "digit_val c = of_char c - 48"

fun digits_val :: "nat \<Rightarrow> string \<Rightarrow> nat" where
  "digits_val acc [] = acc"
| "digits_val acc (c # cs) = digits_val (10 * acc + digit_val c) cs"

definition take_sign :: "string \<Rightarrow> bool \<times> string" where
  "take_sign s =
     (case s of
        [] \<Rightarrow> (False, [])
      | c # t \<Rightarrow> if c = CHR ''-'' then (True, t) else if c = CHR ''+'' then (False, t) else (False, s))"

definition atoi :: "string \<Rightarrow> int option" where
  "atoi s =
     (let (neg, s2) = take_sign (dropWhile isspace_c s);
          n = int (digits_val 0 (takeWhile isdigit_c s2));
          v = (if neg then - n else n)
      in if - 2147483648 \<le> v \<and> v \<le> 2147483647 then Some v else None)"

definition exponent_part :: "string \<Rightarrow> int" where
  "exponent_part s =
     (case s of
        [] \<Rightarrow> 0
      | c # t \<Rightarrow>
          if c = CHR ''e'' \<or> c = CHR ''E''
          then (let (eneg, t2) = take_sign t;
                    ds = takeWhile isdigit_c t2
                in if ds = [] then 0
                   else if eneg then - int (digits_val 0 ds) else int (digits_val 0 ds))
          else 0)"

definition atof :: "string \<Rightarrow> real" where
  "atof s =
     (let (neg, s2) = take_sign (dropWhile isspace_c s);
          ip = takeWhile isdigit_c s2;
          r1 = dropWhile isdigit_c s2;
          (fp, r2) = (case r1 of
                        [] \<Rightarrow> ([], [])
                      | c # t \<Rightarrow> if c = CHR ''.''
                                then (takeWhile isdigit_c t, dropWhile isdigit_c t)
                                else ([], r1))
      in if ip = [] \<and> fp = [] then 0
         else
           (let mant = real (digits_val 0 ip) + real (digits_val 0 fp) / 10 ^ length fp;
                e = exponent_part r2;
                v = (if 0 \<le> e then mant * 10 ^ nat e else mant / 10 ^ nat (- e))
            in if neg then - v else v))"

fun strstr :: "string \<Rightarrow> string \<Rightarrow> string option" where
  "strstr [] needle = (if needle = [] then Some [] else None)"
| "strstr (c # cs) needle =
     (if take (length needle) (c # cs) = needle then Some (c # cs) else strstr cs needle)"

text \<open>
  \<^verbatim>\<open>json_get_number\<close> of the plugin: the search text \<^verbatim>\<open>"key":\<close> is built in a buffer of 64
  bytes, the first occurrence is looked up with \<^verbatim>\<open>strstr\<close>, blanks after the colon are
  skipped and the rest goes to \<^verbatim>\<open>atof\<close>. The result is \<^const>\<open>None\<close> where the C function
  returns \<open>-1\<close>.
\<close>

definition json_get_number :: "string \<Rightarrow> string \<Rightarrow> real option" where
  "json_get_number json key =
     (let search = take 63 (CHR 0x22 # key @ [CHR 0x22, CHR '':''])
      in case strstr json search of
           None \<Rightarrow> None
         | Some p \<Rightarrow> Some (atof (dropWhile (\<lambda>c. c = CHR '' '') (drop (length search) p))))"

text \<open>
  The conversions \<^verbatim>\<open>%d\<close> and \<^verbatim>\<open>%.Nf\<close> of \<^verbatim>\<open>snprintf\<close>: \<^verbatim>\<open>%.Nf\<close> rounds the exact value to
  \<open>N\<close> decimals, a tie to the even digit.
\<close>

definition round_half_even :: "real \<Rightarrow> int" where
  "round_half_even x =
     (let f = \<lfloor>x\<rfloor>; d = x - of_int f
      in if d < 1 / 2 then f else if d > 1 / 2 then f + 1 else if even f then f else f + 1)"

definition digit_char :: "nat \<Rightarrow> char" where
  "digit_char n = ''0123456789'' ! n"

function show_nat :: "nat \<Rightarrow> string" where
  "show_nat n = (if n < 10 then [digit_char n] else show_nat (n div 10) @ [digit_char (n mod 10)])"
  by pat_completeness auto
termination
  by (relation "measure id") auto

declare show_nat.simps [simp del]

fun pad_digits :: "nat \<Rightarrow> nat \<Rightarrow> string" where
  "pad_digits 0 v = []"
| "pad_digits (Suc k) v = pad_digits k (v div 10) @ [digit_char (v mod 10)]"

definition fmt_d :: "int \<Rightarrow> string" where
  "fmt_d i = (if i < 0 then CHR ''-'' # show_nat (nat (- i)) else show_nat (nat i))"

definition fmt_f :: "nat \<Rightarrow> real \<Rightarrow> string" where
  "fmt_f prec x =
     (let m = nat (round_half_even (\<bar>x\<bar> * 10 ^ prec));
          s = show_nat (m div 10 ^ prec)
              @ (if prec = 0 then [] else CHR ''.'' # pad_digits prec (m mod 10 ^ prec))
      in if x < 0 then CHR ''-'' # s else s)"

text \<open>\<^verbatim>\<open>snprintf(buf, buf_len, ...)\<close> for \<open>buf_len > 0\<close>: the text that lands in \<^verbatim>\<open>buf\<close> and
  the value returned (the length of the whole text).\<close>

definition c_snprintf :: "int \<Rightarrow> string \<Rightarrow> string \<times> int" where
  "c_snprintf buf_len s = (take (nat (buf_len - 1)) s, int (length s))"

section \<open>Parameter interface of the plugin with file-scope state (API v1)\<close>

definition fx_set_param :: "plugin_globals \<Rightarrow> string \<Rightarrow> string \<Rightarrow> plugin_globals option" where
  "fx_set_param g key val =
     (if key = ''preset'' then
        (case atoi val of None \<Rightarrow> None | Some v \<Rightarrow> Some (apply_preset g v))
      else if key = ''decay'' then
        (let v0 = atof val;
             v1 = (if v0 < 0 then 0 else v0);
             v = (if v1 > 1 then 1 else v1);
             g1 = g\<lparr> g_decay := v \<rparr>
         in Some (update_decay g1 (g_decay g1)))
      else if key = ''mix'' then
        (let v0 = atof val;
             v1 = (if v0 < 0 then 0 else v0);
             v = (if v1 > 1 then 1 else v1)
         in Some (g\<lparr> g_mix := v \<rparr>))
      else if key = ''input_gain'' then
        (let v0 = atof val;
             v1 = (if v0 < 0 then 0 else v0);
             v = (if v1 > 1 then 1 else v1);
             g1 = g\<lparr> g_input_gain := v \<rparr>
         in Some (update_input_gain g1 (g_input_gain g1)))
      else if key = ''level'' then
        (let v0 = atof val;
             v1 = (if v0 < 0 then 0 else v0);
             v = (if v1 > 1 then 1 else v1);
             g1 = g\<lparr> g_reverb_level := v \<rparr>
         in Some (update_reverb_level g1 (g_reverb_level g1)))
      else Some g)"

section \<open>Parameter interface of the instance-based plugin (API v2)\<close>

text \<open>
  \<^verbatim>\<open>v2_set_param\<close> for non-null \<^verbatim>\<open>instance\<close>, \<^verbatim>\<open>key\<close> and \<^verbatim>\<open>val\<close>. In the \<^verbatim>\<open>state\<close> branch
  \<^verbatim>\<open>(int)v\<close> converts a float to \<^verbatim>\<open>int\<close>.
\<close>

definition v2_set_state_preset :: "psxverb_instance_t \<Rightarrow> string \<Rightarrow> (psxverb_instance_t \<times> bool) option" where
  "v2_set_state_preset inst val =
     (case json_get_number val ''preset'' of
        None \<Rightarrow> Some (inst, False)
      | Some v \<Rightarrow>
          (case float_to_int32 v of
             None \<Rightarrow> None
           | Some idx \<Rightarrow>
               if idx \<ge> 0 \<and> idx < 6 \<and> idx \<noteq> preset_idx inst
               then Some (inst\<lparr> preset_idx := idx \<rparr>, True)
               else Some (inst, False)))"

definition v2_set_state_controls :: "psxverb_instance_t \<Rightarrow> string \<Rightarrow> psxverb_instance_t" where
  "v2_set_state_controls inst val =
     (let i1 = (case json_get_number val ''decay'' of
                  None \<Rightarrow> inst | Some v \<Rightarrow> inst\<lparr> decay := clamp_f v 0 1 \<rparr>);
          i2 = (case json_get_number val ''mix'' of
                  None \<Rightarrow> i1 | Some v \<Rightarrow> i1\<lparr> mix := clamp_f v 0 1 \<rparr>);
          i3 = (case json_get_number val ''input_gain'' of
                  None \<Rightarrow> i2 | Some v \<Rightarrow> i2\<lparr> input_gain := clamp_f v 0 1 \<rparr>)
      in (case json_get_number val ''reverb_level'' of
            None \<Rightarrow> i3 | Some v \<Rightarrow> i3\<lparr> reverb_level := clamp_f v 0 1 \<rparr>))"

definition v2_set_param :: "psxverb_instance_t \<Rightarrow> string \<Rightarrow> string \<Rightarrow> psxverb_instance_t option" where
  "v2_set_param inst key val =
     (if key = ''state'' then
        (case v2_set_state_preset inst val of
           None \<Rightarrow> None
         | Some (i1, preset_changed) \<Rightarrow>
             (let i2 = v2_set_state_controls i1 val
              in if preset_changed then Some (v2_apply_preset i2 (preset_idx i2))
                 else
                   (let i3 = v2_update_decay i2;
                        in_scale = input_gain i3 * 2;
                        i4 = i3\<lparr> current := (current i3)\<lparr> vLIN_f := vLIN_f (base i3) * in_scale,
                                                            vRIN_f := vRIN_f (base i3) * in_scale \<rparr> \<rparr>;
                        out_scale = reverb_level i4 * 4
                    in Some (i4\<lparr> current := (current i4)\<lparr> vLOUT_f := vLOUT_f (base i4) * out_scale,
                                                           vROUT_f := vROUT_f (base i4) * out_scale \<rparr> \<rparr>))))
      else if key = ''preset'' then
        (case atoi val of
           None \<Rightarrow> None
         | Some idx \<Rightarrow> if idx \<ge> 0 \<and> idx < 6 then Some (v2_apply_preset inst idx) else Some inst)
      else if key = ''decay'' then
        Some (v2_update_decay (inst\<lparr> decay := clamp_f (atof val) 0 1 \<rparr>))
      else if key = ''mix'' then
        Some (inst\<lparr> mix := clamp_f (atof val) 0 1 \<rparr>)
      else if key = ''input_gain'' then
        (let i1 = inst\<lparr> input_gain := clamp_f (atof val) 0 1 \<rparr>;
             in_scale = input_gain i1 * 2
         in Some (i1\<lparr> current := (current i1)\<lparr> vLIN_f := vLIN_f (base i1) * in_scale,
                                                vRIN_f := vRIN_f (base i1) * in_scale \<rparr> \<rparr>))
      else if key = ''reverb_level'' then
        (let i1 = inst\<lparr> reverb_level := clamp_f (atof val) 0 1 \<rparr>;
             out_scale = reverb_level i1 * 4
         in Some (i1\<lparr> current := (current i1)\<lparr> vLOUT_f := vLOUT_f (base i1) * out_scale,
                                                vROUT_f := vROUT_f (base i1) * out_scale \<rparr> \<rparr>))
      else Some inst)"

text \<open>The text written for the key \<^verbatim>\<open>state\<close>.\<close>

definition state_json :: "int \<Rightarrow> real \<Rightarrow> real \<Rightarrow> real \<Rightarrow> real \<Rightarrow> string" where
  \<open>state_json p d m g r =
     ''{"preset":'' @ fmt_d p @ '',"decay":'' @ fmt_f 4 d @ '',"mix":'' @ fmt_f 4 m
     @ '',"input_gain":'' @ fmt_f 4 g @ '',"reverb_level":'' @ fmt_f 4 r @ ''}''\<close>

definition ui_hierarchy_json :: string where
  \<open>ui_hierarchy_json =
     ''{"modes":null,"levels":{"root":{"list_param":"preset","count_param":"preset_count",''
     @ ''"name_param":"preset_name","children":"params","knobs":[],"params":[]},''
     @ ''"params":{"children":null,''
     @ ''"knobs":["decay","mix","input_gain","reverb_level"],''
     @ ''"params":["decay","mix","input_gain","reverb_level"]}}}''\<close>

definition chain_params_json :: string where
  \<open>chain_params_json =
     ''[{"key":"preset","name":"Preset","type":"int","min":0,"max":5},''
     @ ''{"key":"decay","name":"Decay","type":"float","min":0,"max":1},''
     @ ''{"key":"mix","name":"Mix","type":"float","min":0,"max":1},''
     @ ''{"key":"input_gain","name":"Input Gain","type":"float","min":0,"max":1},''
     @ ''{"key":"reverb_level","name":"Reverb Level","type":"float","min":0,"max":1}]''\<close>

text \<open>
  \<^verbatim>\<open>v2_get_param\<close> for non-null pointers: the result is the new contents of \<^verbatim>\<open>buf\<close> and the
  value returned. Indexing \<^verbatim>\<open>g_presets\<close> outside the table is undefined.
\<close>

definition v2_get_param ::
  "psxverb_instance_t \<Rightarrow> string \<Rightarrow> string \<Rightarrow> int \<Rightarrow> (string \<times> int) option" where
  "v2_get_param inst key buffer buf_len =
     (if buf_len \<le> 0 then Some (buffer, - 1)
      else if key = ''preset'' then Some (c_snprintf buf_len (fmt_d (preset_idx inst)))
      else if key = ''preset_name'' then
        (if 0 \<le> preset_idx inst \<and> preset_idx inst < 6
         then Some (c_snprintf buf_len (name (g_presets ! nat (preset_idx inst))))
         else None)
      else if key = ''preset_count'' then Some (c_snprintf buf_len ''6'')
      else if key = ''decay'' then Some (c_snprintf buf_len (fmt_f 2 (decay inst)))
      else if key = ''mix'' then Some (c_snprintf buf_len (fmt_f 2 (mix inst)))
      else if key = ''input_gain'' then Some (c_snprintf buf_len (fmt_f 2 (input_gain inst)))
      else if key = ''reverb_level'' then Some (c_snprintf buf_len (fmt_f 2 (reverb_level inst)))
      else if key = ''name'' then Some (c_snprintf buf_len ''PSX Verb'')
      else if key = ''state'' then
        Some (c_snprintf buf_len
                (state_json (preset_idx inst) (decay inst) (mix inst) (input_gain inst)
                   (reverb_level inst)))
      else if key = ''ui_hierarchy'' then
        (if int (length ui_hierarchy_json) < buf_len
         then Some (ui_hierarchy_json, int (length ui_hierarchy_json))
         else Some (buffer, - 1))
      else if key = ''chain_params'' then
        (if int (length chain_params_json) < buf_len
         then Some (chain_params_json, int (length chain_params_json))
         else Some (buffer, - 1))
      else Some (buffer, - 1))"


section \<open>Block processing\<close>















section \<open>Notions used by the statements\<close>


text \<open>
  The decay mapping in the words of the specification: the line through two points, the
  scale that follows it on the two segments of the decay range, and the clamped product.
\<close>

definition line_through :: "real \<Rightarrow> real \<Rightarrow> real \<Rightarrow> real \<Rightarrow> real \<Rightarrow> real" where
  "line_through x0 y0 x1 y1 x = y0 + (x - x0) * (y1 - y0) / (x1 - x0)"

definition spec_max_scale :: "real \<Rightarrow> real" where
  "spec_max_scale base_vwall = max 0.5 (min 10 (0.99 / max (1 / 100000) \<bar>base_vwall\<bar>))"

definition spec_wall_scale :: "real \<Rightarrow> real \<Rightarrow> real" where
  "spec_wall_scale base_vwall d =
     (if d \<le> 0.5 then line_through 0 0.5 0.5 1 d
      else line_through 0.5 1 1 (spec_max_scale base_vwall) d)"

definition spec_decay_vwall :: "real \<Rightarrow> real \<Rightarrow> real" where
  "spec_decay_vwall base_vwall d =
     max (- 0.995) (min 0.995 (base_vwall * spec_wall_scale base_vwall d))"

text \<open>
  \<^verbatim>\<open>set_param("state", x)\<close> followed by \<^verbatim>\<open>get_param("state")\<close> on the resulting instance, with
  an empty output buffer of \<open>buf_len\<close> bytes.
\<close>

definition state_round_trip :: "psxverb_instance_t \<Rightarrow> string \<Rightarrow> int \<Rightarrow> (string \<times> int) option" where
  "state_round_trip inst x buf_len =
     (case v2_set_param inst ''state'' x of
        None \<Rightarrow> None
      | Some inst' \<Rightarrow> v2_get_param inst' ''state'' [] buf_len)"

section \<open>Properties of the halfband filter\<close>



section \<open>Work area round trip\<close>

lemma workarea_index_bound:
  "unat (size_mask wa) < n \<Longrightarrow> workarea_index wa offset < n"
proof -
  assume a: "unat (size_mask wa) < n"
  have "unat ((base_cursor wa + offset) AND size_mask wa) \<le> unat (size_mask wa)"
    by (rule word_and_le1 [THEN word_le_nat_alt [THEN iffD1]])
  with a show ?thesis by (simp add: workarea_index_def)
qed

lemma sint_word16_of_int:
  "- 32768 \<le> x \<Longrightarrow> x \<le> 32767 \<Longrightarrow> sint (word_of_int x :: 16 word) = x"
  by (simp add: sint_sbintrunc' signed_take_bit_int_eq_self)

lemma float_to_int32_Some:
  "- 2147483649 < x \<Longrightarrow> x < 2147483648 \<Longrightarrow> float_to_int32 x = Some (c_trunc x)"
  unfolding float_to_int32_def c_trunc_def Let_def
  by (auto simp: le_floor_iff floor_le_iff ceiling_le_iff le_ceiling_iff)

text \<open>
  Claim C6, as amended. On a work area whose mask stays inside its storage, for every
  offset and every value \<open>v\<close> for which \<open>v * 32768\<close> truncates into the range of
  \<^verbatim>\<open>int32_t\<close>, \<^const>\<open>workarea_write_relative\<close> succeeds without moving the base cursor, and
  \<^const>\<open>workarea_read_relative\<close> at the same offset then returns \<open>v * 32768\<close> truncated
  toward zero, saturated to \<open>[-32768, 32767]\<close> and divided by 32768.
\<close>

theorem workarea_write_read_roundtrip:
  assumes inb: "unat (size_mask wa) < length (buf wa)"
    and lo: "- 2147483649 < v * 32768" and hi: "v * 32768 < 2147483648"
  shows "\<exists>wa'. workarea_write_relative wa offset v = Some wa'
            \<and> base_cursor wa' = base_cursor wa \<and> size_mask wa' = size_mask wa
            \<and> workarea_read_relative wa' offset
                = Some (real_of_int (max (- 32768) (min 32767 (c_trunc (v * 32768)))) / 32768)"
proof -
  have idx: "workarea_index wa offset < length (buf wa)"
    using inb by (rule workarea_index_bound)
  have conv: "float_to_int32 (v * kFloatToInt16) = Some (c_trunc (v * 32768))"
    using lo hi by (simp add: kFloatToInt16_def float_to_int32_Some)
  define q where "q = max (- 32768) (min 32767 (c_trunc (v * 32768)))"
  have q: "- 32768 \<le> q" "q \<le> 32767" by (simp_all add: q_def)
  have sat: "(let val_int1 = (if c_trunc (v * 32768) > 32767 then 32767 else c_trunc (v * 32768))
              in if val_int1 < - 32768 then - 32768 else val_int1) = q"
    by (simp add: q_def Let_def max_def min_def)
  define wa' where "wa' = wa\<lparr> buf := (buf wa)[workarea_index wa offset := word_of_int q] \<rparr>"
  have w: "workarea_write_relative wa offset v = Some wa'"
    using idx sat by (simp add: workarea_write_relative_def conv wa'_def Let_def)
  have idx': "workarea_index wa' offset = workarea_index wa offset"
    by (simp add: workarea_index_def wa'_def)
  have len': "length (buf wa') = length (buf wa)"
    and nth': "buf wa' ! workarea_index wa offset = word_of_int q"
    using idx by (simp_all add: wa'_def)
  have "sint (buf wa' ! workarea_index wa offset) = q"
    unfolding nth' using q by (rule sint_word16_of_int)
  then have r: "workarea_read_relative wa' offset = Some (real_of_int q / 32768)"
    using idx unfolding workarea_read_relative_def idx' Let_def kInt16ToFloat_def len'
    by simp
  show ?thesis using w r by (simp add: wa'_def q_def)
qed

text \<open>Witness for C6: writing 2.0 at offset \<open>-1\<close> reads back \<open>32767 / 32768\<close>.\<close>

theorem workarea_write_read_roundtrip_witness:
  "\<exists>wa'. workarea_write_relative \<lparr> buf = replicate 8 0, size_mask = 7, base_cursor = 3 \<rparr> (- 1) 2
           = Some wa'
         \<and> workarea_read_relative wa' (- 1) = Some (32767 / 32768)"
  using workarea_write_read_roundtrip
    [of "\<lparr> buf = replicate 8 0, size_mask = 7, base_cursor = 3 \<rparr>" 2 "- 1"]
  by (auto simp: c_trunc_def)

text \<open>
  Counterexample to C6 as stated (every float value): for the value 65536.0 the product
  \<open>65536 * 32768 = 2^31\<close> is outside the range of \<^verbatim>\<open>int32_t\<close>, the conversion
  \<^verbatim>\<open>(int32_t)(value * kFloatToInt16)\<close> is undefined, and nothing is guaranteed to be stored.
\<close>

theorem workarea_write_out_of_int32_range:
  "workarea_write_relative \<lparr> buf = replicate 8 0, size_mask = 7, base_cursor = 0 \<rparr> 0 65536 = None"
  by (simp add: workarea_write_relative_def float_to_int32_def c_trunc_def kFloatToInt16_def)

section \<open>Decay update\<close>

lemmas preset_defs = preset_room_def preset_studio_s_def preset_studio_m_def
  preset_studio_l_def preset_hall_def preset_space_echo_def

lemma preset_index_cases:
  assumes "0 \<le> idx" "idx \<le> 5"
  obtains "idx = 0" | "idx = 1" | "idx = 2" | "idx = 3" | "idx = 4" | "idx = (5::int)"
  using assms by arith

lemma g_presets_nth:
  "g_presets ! 0 = preset_room" "g_presets ! Suc 0 = preset_studio_s"
  "g_presets ! 2 = preset_studio_m" "g_presets ! 3 = preset_studio_l"
  "g_presets ! 4 = preset_hall" "g_presets ! 5 = preset_space_echo"
  by (simp_all add: g_presets_def)

lemma clamp_f_wall: "clamp_f v (- 0.995) 0.995 = max (- 0.995) (min 0.995 v)"
  by (simp add: clamp_f_def max_def min_def)

lemma clamp_f_scale: "clamp_f v 0.5 10 = max 0.5 (min 10 v)"
  by (simp add: clamp_f_def max_def min_def)

lemma max_f_max: "max_f a b = max a b"
  by (simp add: max_f_def max_def)

lemma abs_f_abs: "abs_f v = \<bar>v\<bar>"
  by (simp add: abs_f_def abs_real_def)

lemma seg1: "0.5 + (d / 0.5) * (1 - 0.5) = line_through 0 0.5 0.5 1 d" for d :: real
  by (simp add: line_through_def field_simps)

lemma seg2: "1 + ((d - 0.5) / (1 - 0.5)) * (m - 1) = line_through 0.5 1 1 m d" for d m :: real
  by (simp add: line_through_def field_simps)

lemma update_decay_current:
  "g_current (update_decay g d) = (g_current g)\<lparr> vWALL_f := 
     clamp_f (vWALL_f (g_base g) * 
        (if d \<le> 0.5 then 0.5 + (d / 0.5) * (1 - 0.5)
         else 1 + ((d - 0.5) / (1 - 0.5)) * (clamp_f (0.99 / max_f (1 / 100000) (abs_f (vWALL_f (g_base g)))) 0.5 10 - 1))) (- 0.995) 0.995 \<rparr>"
  unfolding update_decay_def Let_def by simp


lemma vWALL_f_update: "vWALL_f (r\<lparr> vWALL_f := x \<rparr>) = x" for r :: scaled_preset_t
  by simp

lemma update_decay_vwall:
  "vWALL_f (g_current (update_decay g d)) = spec_decay_vwall (vWALL_f (g_base g)) d"
  unfolding update_decay_current vWALL_f_update spec_decay_vwall_def spec_wall_scale_def
    spec_max_scale_def seg1 seg2 clamp_f_wall clamp_f_scale max_f_max abs_f_abs
  by (rule refl)

lemma v2_update_decay_vwall:
  "vWALL_f (current (v2_update_decay inst)) = vWALL_f (base inst) * decay inst"
  by (simp add: v2_update_decay_def)

lemma spec_decay_vwall_bounds:
  "- 0.995 \<le> spec_decay_vwall b d" "spec_decay_vwall b d \<le> 0.995"
  by (simp_all add: spec_decay_vwall_def)

lemma v2_apply_preset_base:
  "0 \<le> idx \<Longrightarrow> idx \<le> 5 \<Longrightarrow> base (v2_apply_preset inst idx) = scale_preset (g_presets ! nat idx)"
  by (simp add: v2_apply_preset_def Let_def v2_update_decay_def v2_scale_preset_def)

lemma apply_preset_base:
  "g_base (apply_preset g idx) = scale_preset (g_presets ! nat (max 0 (min 5 idx)))"
  by (simp add: apply_preset_def Let_def update_decay_def update_input_gain_def
      update_reverb_level_def max_def min_def)

lemma preset_wall_table:
  assumes "0 \<le> idx" "idx \<le> 5"
  shows "vWALL_f (scale_preset (g_presets ! nat idx))
         = [- 17792, - 25600, - 19264, - 22912, - 16384, - 20480] ! nat idx / 32768"
  using assms(1,2)
  by (rule preset_index_cases)
    (simp_all add: g_presets_nth scale_preset_def preset_defs coeff_to_float_def)

lemma preset_wall_bounds:
  assumes "0 \<le> idx" "idx \<le> 5"
  shows "- 0.995 \<le> vWALL_f (scale_preset (g_presets ! nat idx))"
    and "vWALL_f (scale_preset (g_presets ! nat idx)) \<le> 0"
  unfolding preset_wall_table [OF assms]
  using assms(1,2) by (rule preset_index_cases, simp_all)+

lemma scaled_wall_bounds:
  fixes w d :: real
  assumes "- 0.995 \<le> w" "w \<le> 0" "0 \<le> d" "d \<le> 1"
  shows "- 0.995 \<le> w * d" and "w * d \<le> 0.995"
proof -
  have "w * 1 \<le> w * d" using assms(4,2) by (rule mult_left_mono_neg)
  then show "- 0.995 \<le> w * d" using assms(1) by simp
  have "w * d \<le> 0" using assms(2,3) by (simp add: mult_nonpos_nonneg)
  then show "w * d \<le> 0.995" by simp
qed

text \<open>
  Claim C5. For every decay value in \<open>[0, 1]\<close> and each of the six presets, the coefficient
  \<open>current.vWALL\<close> produced by the decay update lies in \<open>[-0.995, 0.995]\<close>: for
  \<^const>\<open>update_decay\<close> after \<^const>\<open>apply_preset\<close>, and for \<^const>\<open>v2_update_decay\<close> after
  \<^const>\<open>v2_apply_preset\<close> with the instance's decay set to that value.
\<close>

theorem decay_update_vwall_in_range:
  assumes "0 \<le> idx" and "idx \<le> 5" and "0 \<le> d" and "d \<le> 1"
  shows "- 0.995 \<le> vWALL_f (g_current (update_decay (apply_preset g idx) d))
       \<and> vWALL_f (g_current (update_decay (apply_preset g idx) d)) \<le> 0.995
       \<and> - 0.995 \<le> vWALL_f (current (v2_update_decay ((v2_apply_preset inst idx)\<lparr> decay := d \<rparr>)))
       \<and> vWALL_f (current (v2_update_decay ((v2_apply_preset inst idx)\<lparr> decay := d \<rparr>))) \<le> 0.995"
proof -
  have b: "base ((v2_apply_preset inst idx)\<lparr> decay := d \<rparr>) = scale_preset (g_presets ! nat idx)"
    using assms(1,2) by (simp add: v2_apply_preset_base)
  have v2: "vWALL_f (current (v2_update_decay ((v2_apply_preset inst idx)\<lparr> decay := d \<rparr>)))
            = vWALL_f (scale_preset (g_presets ! nat idx)) * d"
    by (simp add: v2_update_decay_vwall b)
  show ?thesis
    unfolding v2 update_decay_vwall
    using spec_decay_vwall_bounds
      scaled_wall_bounds [OF preset_wall_bounds [OF assms(1,2)] assms(3,4)]
    by simp
qed

text \<open>Witness for C5: preset 1 (Studio S, the largest wall coefficient) at decay 1.\<close>

theorem decay_update_vwall_in_range_witness:
  "- 0.995 \<le> vWALL_f (g_current (update_decay (apply_preset initial_globals 1) 1))
   \<and> vWALL_f (g_current (update_decay (apply_preset initial_globals 1) 1)) \<le> 0.995
   \<and> - 0.995 \<le> vWALL_f (current (v2_update_decay ((v2_apply_preset v2_create_instance 1)\<lparr> decay := 1 \<rparr>)))
   \<and> vWALL_f (current (v2_update_decay ((v2_apply_preset v2_create_instance 1)\<lparr> decay := 1 \<rparr>))) \<le> 0.995"
  by (rule decay_update_vwall_in_range) simp_all

lemma spec_wall_scale_endpoints:
  "spec_wall_scale b 0 = 0.5" "spec_wall_scale b 0.5 = 1" "spec_wall_scale b 1 = spec_max_scale b"
  by (simp_all add: spec_wall_scale_def line_through_def field_simps)

text \<open>
  Claim C1, as amended. For every decay value \<open>d\<close> in \<open>[0, 1]\<close>, \<^const>\<open>update_decay\<close> sets
  \<open>current.vWALL\<close> to \<open>clamp(base.vWALL * scale, -0.995, 0.995)\<close>, where the scale follows
  the line from 0.5 at \<open>d = 0\<close> to 1 at \<open>d = 0.5\<close> and the line from 1 at \<open>d = 0.5\<close> to
  \<open>maxScale\<close> at \<open>d = 1\<close> (\<^const>\<open>spec_decay_vwall\<close>); \<^const>\<open>v2_update_decay\<close> sets
  \<open>current.vWALL\<close> to \<open>base.vWALL * decay\<close>, with no interpolation and no clamp.
\<close>

theorem decay_update_sets_vwall:
  assumes "0 \<le> d" and "d \<le> 1"
  shows "vWALL_f (g_current (update_decay g d)) = spec_decay_vwall (vWALL_f (g_base g)) d
       \<and> vWALL_f (current (v2_update_decay (inst\<lparr> decay := d \<rparr>))) = vWALL_f (base inst) * d"
  by (simp add: update_decay_vwall v2_update_decay_vwall)

lemma hall_wall: "vWALL_f (scale_preset (g_presets ! 4)) = - 1 / 2"
  by (simp add: g_presets_nth scale_preset_def preset_hall_def coeff_to_float_def)

lemma create_base_wall: "vWALL_f (base v2_create_instance) = - 1 / 2"
  unfolding v2_create_instance_def
  by (simp add: v2_apply_preset_base hall_wall)

lemma hall_base_wall: "vWALL_f (g_base (apply_preset initial_globals 4)) = - 1 / 2"
  by (simp add: apply_preset_base hall_wall)

text \<open>Witness for C1: the Hall preset at decay 0.8.\<close>

theorem decay_update_sets_vwall_witness:
  "(0::real) \<le> 0.8 \<and> (0.8::real) \<le> 1
   \<and> vWALL_f (g_current (update_decay (apply_preset initial_globals 4) 0.8)) = - 0.794
   \<and> vWALL_f (current (v2_update_decay (v2_create_instance\<lparr> decay := 0.8 \<rparr>))) = - 0.4"
  using decay_update_sets_vwall [of "0.8" "apply_preset initial_globals 4" v2_create_instance]
  by (simp add: hall_base_wall create_base_wall spec_decay_vwall_def spec_wall_scale_def
      spec_max_scale_def line_through_def)

text \<open>
  Counterexample to C1 as stated: on a fresh instance (Hall, \<open>base.vWALL = -0.5\<close>) with
  decay 0.5, \<^const>\<open>v2_update_decay\<close> gives \<open>-0.25\<close>, where the stated mapping gives
  \<open>-0.5\<close>.
\<close>

theorem v2_update_decay_not_interpolated:
  "vWALL_f (current (v2_update_decay (v2_create_instance\<lparr> decay := 0.5 \<rparr>))) = - 0.25
   \<and> spec_decay_vwall (vWALL_f (base (v2_create_instance\<lparr> decay := 0.5 \<rparr>))) 0.5 = - 0.5"
  by (simp add: v2_update_decay_vwall create_base_wall spec_decay_vwall_def spec_wall_scale_def
      line_through_def)

section \<open>Work area size after a preset is applied\<close>










section \<open>Preset selection\<close>

lemmas atoi_eval = atoi_def take_sign_def isspace_c_def isdigit_c_def digit_val_def

lemma apply_preset_clamps: "apply_preset g idx = apply_preset g (max 0 (min 5 idx))"
proof -
  consider "idx < 0" | "0 \<le> idx" "idx \<le> 5" | "5 < idx" by linarith
  then show ?thesis
  proof cases
    case 1
    then have "max 0 (min 5 idx) = 0" by simp
    with 1 show ?thesis by (simp add: apply_preset_def)
  next
    case 2
    then have "max 0 (min 5 idx) = idx" by simp
    then show ?thesis by simp
  next
    case 3
    then have "max 0 (min 5 idx) = 5" by simp
    with 3 show ?thesis by (simp add: apply_preset_def)
  qed
qed

lemma apply_preset_idx: "g_preset_idx (apply_preset g idx) = max 0 (min 5 idx)"
  by (simp add: apply_preset_def Let_def max_def min_def update_decay_def
      update_input_gain_def update_reverb_level_def)

lemma v2_apply_preset_rejects: "idx < 0 \<or> 5 < idx \<Longrightarrow> v2_apply_preset inst idx = inst"
  by (auto simp: v2_apply_preset_def)

lemma v2_set_param_preset:
  "atoi val = Some idx \<Longrightarrow>
   v2_set_param inst ''preset'' val = Some (if 0 \<le> idx \<and> idx < 6 then v2_apply_preset inst idx else inst)"
  by (simp add: v2_set_param_def)

lemma fx_set_param_preset:
  "atoi val = Some idx \<Longrightarrow> fx_set_param g ''preset'' val = Some (apply_preset g idx)"
  by (simp add: fx_set_param_def)

text \<open>
  Claim C10. When the value string of a \<^verbatim>\<open>preset\<close> request converts to an index outside
  \<open>[0, 5]\<close>, \<^const>\<open>v2_set_param\<close> returns the instance unchanged: every field (preset index,
  base and current coefficients, work area, halfband histories, controls) keeps its
  value.
\<close>

theorem v2_set_param_preset_out_of_range:
  assumes "atoi val = Some idx" and "idx < 0 \<or> 5 < idx"
  shows "v2_set_param inst ''preset'' val = Some inst"
  using assms by (auto simp: v2_set_param_preset)

text \<open>Witness for C10: the requests \<^verbatim>\<open>7\<close> and \<^verbatim>\<open>-3\<close> on a fresh instance.\<close>

theorem v2_set_param_preset_out_of_range_witness:
  "atoi ''7'' = Some 7 \<and> v2_set_param v2_create_instance ''preset'' ''7'' = Some v2_create_instance
   \<and> atoi ''-3'' = Some (- 3) \<and> v2_set_param v2_create_instance ''preset'' ''-3'' = Some v2_create_instance"
proof -
  have a: "atoi ''7'' = Some 7" and b: "atoi ''-3'' = Some (- 3)"
    by (simp_all add: atoi_eval)
  show ?thesis
    using v2_set_param_preset_out_of_range [OF a, of v2_create_instance]
      v2_set_param_preset_out_of_range [OF b, of v2_create_instance] a b
    by simp
qed

text \<open>
  Claim C3, as amended. \<^const>\<open>apply_preset\<close> (and \<^const>\<open>fx_set_param\<close> with the key
  \<^verbatim>\<open>preset\<close>) clamps every index to the nearest one in \<open>[0, 5]\<close> and applies that preset;
  \<^const>\<open>v2_apply_preset\<close> and \<^const>\<open>v2_set_param\<close> with the key \<^verbatim>\<open>preset\<close> ignore an index
  outside \<open>[0, 5]\<close> and leave the instance unchanged.
\<close>

theorem preset_index_out_of_range:
  "g_preset_idx (apply_preset g idx) = max 0 (min 5 idx)
   \<and> apply_preset g idx = apply_preset g (max 0 (min 5 idx))
   \<and> g_base (apply_preset g idx) = scale_preset (g_presets ! nat (max 0 (min 5 idx)))
   \<and> (atoi val = Some idx \<longrightarrow>
        fx_set_param g ''preset'' val = Some (apply_preset g (max 0 (min 5 idx))))
   \<and> (idx < 0 \<or> 5 < idx \<longrightarrow> v2_apply_preset inst idx = inst)
   \<and> (idx < 0 \<or> 5 < idx \<longrightarrow> atoi val = Some idx \<longrightarrow>
        v2_set_param inst ''preset'' val = Some inst)"
  using apply_preset_clamps [of g idx] apply_preset_idx [of g idx] apply_preset_base [of g idx]
    v2_apply_preset_rejects [of idx inst]
  by (auto simp: fx_set_param_preset v2_set_param_preset)

text \<open>Witness for C3: the index 7.\<close>

theorem preset_index_out_of_range_witness:
  "g_preset_idx (apply_preset initial_globals 7) = 5
   \<and> apply_preset initial_globals 7 = apply_preset initial_globals 5
   \<and> fx_set_param initial_globals ''preset'' ''7'' = Some (apply_preset initial_globals 5)
   \<and> v2_apply_preset v2_create_instance 7 = v2_create_instance
   \<and> v2_set_param v2_create_instance ''preset'' ''7'' = Some v2_create_instance"
proof -
  have a: "atoi ''7'' = Some 7"
    by (simp add: atoi_eval)
  show ?thesis
    using preset_index_out_of_range [of initial_globals 7 "''7''" v2_create_instance] a
    by (simp add: apply_preset_idx)
qed

lemma create_preset_idx: "preset_idx v2_create_instance = 4"
  by (simp add: v2_create_instance_def v2_apply_preset_def Let_def v2_update_decay_def)

text \<open>
  Counterexample to C3 as stated: on a fresh instance (preset 4) the request \<^verbatim>\<open>preset = 7\<close>
  leaves preset 4 active; preset 5 is not applied.
\<close>

theorem v2_preset_index_not_clamped:
  "v2_set_param v2_create_instance ''preset'' ''7'' = Some v2_create_instance
   \<and> preset_idx v2_create_instance = 4
   \<and> preset_idx (v2_apply_preset v2_create_instance 5) = 5"
proof -
  have a: "atoi ''7'' = Some 7"
    by (simp add: atoi_eval)
  show ?thesis
    by (simp add: v2_set_param_preset [OF a] create_preset_idx v2_apply_preset_def Let_def
        v2_update_decay_def)
qed

section \<open>Control changes\<close>

text \<open>
  Claim C9. A \<^verbatim>\<open>set_param\<close> call on \<^verbatim>\<open>decay\<close>, \<^verbatim>\<open>mix\<close>, \<^verbatim>\<open>input_gain\<close> or
  \<^verbatim>\<open>reverb_level\<close> leaves \<open>base\<close> unchanged and changes in \<open>current\<close> only the coefficients
  derived from that control: \<open>vWALL\<close> for decay, nothing for mix, \<open>vLIN\<close> and \<open>vRIN\<close> for
  the input gain, \<open>vLOUT\<close> and \<open>vROUT\<close> for the reverb level. In \<^const>\<open>fx_set_param\<close> the
  reverb level has the key \<^verbatim>\<open>level\<close>, and the key \<^verbatim>\<open>reverb_level\<close> changes nothing.
\<close>

theorem control_change_keeps_base:
  "(\<exists>i'. v2_set_param inst ''decay'' val = Some i' \<and> base i' = base inst
        \<and> current i' = (current inst)\<lparr> vWALL_f := vWALL_f (base inst) * decay i' \<rparr>)
   \<and> (\<exists>i'. v2_set_param inst ''mix'' val = Some i' \<and> base i' = base inst
        \<and> current i' = current inst)
   \<and> (\<exists>i'. v2_set_param inst ''input_gain'' val = Some i' \<and> base i' = base inst
        \<and> current i' = (current inst)\<lparr> vLIN_f := vLIN_f (base inst) * (input_gain i' * 2),
                                       vRIN_f := vRIN_f (base inst) * (input_gain i' * 2) \<rparr>)
   \<and> (\<exists>i'. v2_set_param inst ''reverb_level'' val = Some i' \<and> base i' = base inst
        \<and> current i' = (current inst)\<lparr> vLOUT_f := vLOUT_f (base inst) * (reverb_level i' * 4),
                                       vROUT_f := vROUT_f (base inst) * (reverb_level i' * 4) \<rparr>)
   \<and> (\<exists>g'. fx_set_param g ''decay'' val = Some g' \<and> g_base g' = g_base g
        \<and> g_current g' = (g_current g)\<lparr> vWALL_f := vWALL_f (g_current g') \<rparr>)
   \<and> (\<exists>g'. fx_set_param g ''mix'' val = Some g' \<and> g_base g' = g_base g
        \<and> g_current g' = g_current g)
   \<and> (\<exists>g'. fx_set_param g ''input_gain'' val = Some g' \<and> g_base g' = g_base g
        \<and> g_current g' = (g_current g)\<lparr> vLIN_f := vLIN_f (g_base g) * (g_input_gain g' * 2),
                                         vRIN_f := vRIN_f (g_base g) * (g_input_gain g' * 2) \<rparr>)
   \<and> (\<exists>g'. fx_set_param g ''level'' val = Some g' \<and> g_base g' = g_base g
        \<and> g_current g' = (g_current g)\<lparr> vLOUT_f := vLOUT_f (g_base g) * (g_reverb_level g' * 4),
                                         vROUT_f := vROUT_f (g_base g) * (g_reverb_level g' * 4) \<rparr>)
   \<and> fx_set_param g ''reverb_level'' val = Some g"
  by (simp add: v2_set_param_def fx_set_param_def Let_def v2_update_decay_def update_decay_def
      update_input_gain_def update_reverb_level_def)

section \<open>Blocks with an odd frame count\<close>










subsection \<open>A concrete block\<close>


















section \<open>State snapshot round trip\<close>

lemma show_nat_lt10: "n < 10 \<Longrightarrow> show_nat n = [digit_char n]"
  by (subst show_nat.simps) simp


lemma pad_digits_numeral:
  "pad_digits (numeral k) v = pad_digits (pred_numeral k) (v div 10) @ [digit_char (v mod 10)]"
proof -
  have "pad_digits (numeral k) v = pad_digits (Suc (pred_numeral k)) v"
    by (simp only: numeral_eq_Suc)
  then show ?thesis by (simp only: pad_digits.simps)
qed



lemma digit_disj:
  "k < 10 \<Longrightarrow> k = 0 \<or> k = 1 \<or> k = 2 \<or> k = 3 \<or> k = 4 \<or> k = 5 \<or> k = 6 \<or> k = 7
     \<or> k = 8 \<or> k = (9::nat)"
  by presburger

lemma digit_cases:
  assumes "k < 10"
  obtains "k = 0" | "k = 1" | "k = 2" | "k = 3" | "k = 4" | "k = 5" | "k = 6" | "k = 7"
    | "k = 8" | "k = (9::nat)"
  using digit_disj [OF assms] by blast

lemma digit_char_isdigit: "k < 10 \<Longrightarrow> isdigit_c (digit_char k)"
  by (erule digit_cases) (simp_all add: isdigit_c_def digit_char_def)

lemma digit_char_val: "k < 10 \<Longrightarrow> digit_val (digit_char k) = k"
  by (erule digit_cases) (simp_all add: digit_val_def digit_char_def)

lemma digit_char_in: "k < 10 \<Longrightarrow> digit_char k \<in> set ''0123456789''"
  by (erule digit_cases) (simp_all add: digit_char_def)

lemma digit_char_neq:
  "k < 10 \<Longrightarrow> c \<notin> set ''0123456789'' \<Longrightarrow> (digit_char k = c) = False"
  "k < 10 \<Longrightarrow> c \<notin> set ''0123456789'' \<Longrightarrow> (c = digit_char k) = False"
  using digit_char_in [of k] by auto

lemma digit_char_not_space: "k < 10 \<Longrightarrow> \<not> isspace_c (digit_char k)"
  by (erule digit_cases) (simp_all add: isspace_c_def digit_char_def)

lemma json_state_text:
  fixes p a0 a1 a2 a3 a4 b0 b1 b2 b3 b4 c0 c1 c2 c3 c4 e0 e1 e2 e3 e4 :: nat
  assumes "p < 10" "a0 < 10" "a1 < 10" "a2 < 10" "a3 < 10" "a4 < 10"
    "b0 < 10" "b1 < 10" "b2 < 10" "b3 < 10" "b4 < 10"
    "c0 < 10" "c1 < 10" "c2 < 10" "c3 < 10" "c4 < 10"
    "e0 < 10" "e1 < 10" "e2 < 10" "e3 < 10" "e4 < 10"
  defines \<open>x \<equiv> ''{"preset":'' @ [digit_char p]
     @ '',"decay":'' @ [digit_char a0, CHR ''.'', digit_char a1, digit_char a2, digit_char a3, digit_char a4]
     @ '',"mix":'' @ [digit_char b0, CHR ''.'', digit_char b1, digit_char b2, digit_char b3, digit_char b4]
     @ '',"input_gain":'' @ [digit_char c0, CHR ''.'', digit_char c1, digit_char c2, digit_char c3, digit_char c4]
     @ '',"reverb_level":'' @ [digit_char e0, CHR ''.'', digit_char e1, digit_char e2, digit_char e3, digit_char e4]
     @ ''}''\<close>
  shows "json_get_number x ''preset'' = Some (real p)"
    and "json_get_number x ''decay'' = Some (real a0 + real (((a1 * 10 + a2) * 10 + a3) * 10 + a4) / 10000)"
    and "json_get_number x ''mix'' = Some (real b0 + real (((b1 * 10 + b2) * 10 + b3) * 10 + b4) / 10000)"
    and "json_get_number x ''input_gain'' = Some (real c0 + real (((c1 * 10 + c2) * 10 + c3) * 10 + c4) / 10000)"
    and "json_get_number x ''reverb_level'' = Some (real e0 + real (((e1 * 10 + e2) * 10 + e3) * 10 + e4) / 10000)"
  using assms(1-21) unfolding x_def
  by (simp_all add: json_get_number_def atof_def take_sign_def exponent_part_def
      digit_char_isdigit digit_char_val digit_char_neq digit_char_not_space
      isdigit_c_def [of "CHR ''.''"] isdigit_c_def [of "CHR '',''"] isdigit_c_def [of "CHR ''}''"]
      algebra_simps)


lemma v2_apply_preset_controls:
  "0 \<le> idx \<Longrightarrow> idx < 6 \<Longrightarrow> preset_idx (v2_apply_preset inst idx) = idx"
  "decay (v2_apply_preset inst idx) = decay inst"
  "mix (v2_apply_preset inst idx) = mix inst"
  "input_gain (v2_apply_preset inst idx) = input_gain inst"
  "reverb_level (v2_apply_preset inst idx) = reverb_level inst"
  by (simp_all add: v2_apply_preset_def Let_def v2_update_decay_def)

lemma clamp_f_unit: "0 \<le> v \<Longrightarrow> v \<le> 1 \<Longrightarrow> clamp_f v 0 1 = v"
  by (simp add: clamp_f_def)

lemma float_to_int32_of_int:
  "- 2147483648 \<le> p \<Longrightarrow> p \<le> 2147483647 \<Longrightarrow> float_to_int32 (real_of_int p) = Some p"
  by (simp add: float_to_int32_def c_trunc_def)

lemma v2_set_param_state_values:
  assumes p: "json_get_number x ''preset'' = Some (real_of_int p)" "0 \<le> p" "p \<le> 5"
    and d: "json_get_number x ''decay'' = Some d" "0 \<le> d" "d \<le> 1"
    and m: "json_get_number x ''mix'' = Some m" "0 \<le> m" "m \<le> 1"
    and g: "json_get_number x ''input_gain'' = Some g" "0 \<le> g" "g \<le> 1"
    and r: "json_get_number x ''reverb_level'' = Some r" "0 \<le> r" "r \<le> 1"
  shows "\<exists>inst'. v2_set_param inst ''state'' x = Some inst'
           \<and> preset_idx inst' = p \<and> decay inst' = d \<and> mix inst' = m
           \<and> input_gain inst' = g \<and> reverb_level inst' = r"
proof -
  have conv: "float_to_int32 (real_of_int p) = Some p"
    using p(2,3) by (intro float_to_int32_of_int) simp_all
  define i1 where "i1 = (if p \<noteq> preset_idx inst then inst\<lparr> preset_idx := p \<rparr> else inst)"
  have sp: "v2_set_state_preset inst x = Some (i1, p \<noteq> preset_idx inst)"
    using p(2,3) by (simp add: v2_set_state_preset_def p(1) conv i1_def)
  have i1: "preset_idx i1 = p" by (simp add: i1_def)
  define i2 where "i2 = v2_set_state_controls i1 x"
  have i2: "preset_idx i2 = p" "decay i2 = d" "mix i2 = m" "input_gain i2 = g" "reverb_level i2 = r"
    using i1 d(2,3) m(2,3) g(2,3) r(2,3)
    by (simp_all add: i2_def v2_set_state_controls_def d(1) m(1) g(1) r(1) Let_def clamp_f_unit)
  show ?thesis
  proof (cases "p \<noteq> preset_idx inst")
    case True
    then have "v2_set_param inst ''state'' x = Some (v2_apply_preset i2 p)"
      by (simp add: v2_set_param_def sp i2_def [symmetric] Let_def i2(1))
    then show ?thesis
      using p(2,3) i2 by (simp add: v2_apply_preset_controls)
  next
    case False
    then show ?thesis
      using i2 by (simp add: v2_set_param_def sp i2_def [symmetric] Let_def v2_update_decay_def)
  qed
qed

lemma v2_get_param_state:
  "0 < buf_len \<Longrightarrow>
   v2_get_param inst ''state'' buffer buf_len =
     Some (c_snprintf buf_len (state_json (preset_idx inst) (decay inst) (mix inst)
             (input_gain inst) (reverb_level inst)))"
  by (simp add: v2_get_param_def)


lemma round_half_even_of_int: "round_half_even (of_int k) = k"
  by (simp add: round_half_even_def)

lemma round_half_even_bounds:
  assumes "0 \<le> x" and "x \<le> of_int n"
  shows "0 \<le> round_half_even x" and "round_half_even x \<le> n"
proof -
  have f0: "0 \<le> \<lfloor>x\<rfloor>" using assms(1) by simp
  have fn: "\<lfloor>x\<rfloor> \<le> n" using assms(2) by (simp add: floor_le_iff)
  show "0 \<le> round_half_even x"
    using f0 by (simp add: round_half_even_def Let_def)
  show "round_half_even x \<le> n"
  proof (cases "\<lfloor>x\<rfloor> = n")
    case True
    then have "x = of_int n" using assms(2) by (metis of_int_floor_le order_antisym)
    then show ?thesis by (simp add: round_half_even_of_int)
  next
    case False
    with fn have "\<lfloor>x\<rfloor> + 1 \<le> n" by simp
    then show ?thesis by (simp add: round_half_even_def Let_def)
  qed
qed

lemma pad_digits_4:
  "pad_digits 4 v = [digit_char (v div 1000 mod 10), digit_char (v div 100 mod 10),
                     digit_char (v div 10 mod 10), digit_char (v mod 10)]"
  by (simp add: pad_digits_numeral div_mult2_eq [symmetric])

lemma four_digits_value:
  fixes v :: nat
  assumes "v < 10000"
  shows "((v div 1000 mod 10 * 10 + v div 100 mod 10) * 10 + v div 10 mod 10) * 10 + v mod 10 = v"
proof -
  have a: "v div 10 * 10 + v mod 10 = v" by simp
  have b: "v div 100 * 10 + v div 10 mod 10 = v div 10"
    using div_mult_mod_eq [of "v div 10" 10] by (simp add: div_mult2_eq [symmetric])
  have c: "v div 1000 * 10 + v div 100 mod 10 = v div 100"
    using div_mult_mod_eq [of "v div 100" 10] by (simp add: div_mult2_eq [symmetric])
  have d: "v div 1000 mod 10 = v div 1000"
    using assms by simp
  show ?thesis
    unfolding d c b a ..
qed


lemma fmt_f_4_unit:
  assumes "0 \<le> d" and "d \<le> 1"
  defines "k \<equiv> nat (round_half_even (d * 10000))"
  shows "k \<le> 10000"
    and "fmt_f 4 d = [digit_char (k div 10000), CHR ''.'', digit_char (k mod 10000 div 1000 mod 10),
                      digit_char (k mod 10000 div 100 mod 10), digit_char (k mod 10000 div 10 mod 10),
                      digit_char (k mod 10000 mod 10)]"
proof -
  have "d * 10000 \<le> of_int 10000" using assms(2) by simp
  moreover have "0 \<le> d * 10000" using assms(1) by simp
  ultimately have "round_half_even (d * 10000) \<le> 10000"
    by (rule round_half_even_bounds(2)[rotated])
  then show k: "k \<le> 10000" by (simp add: k_def)
  then have small: "k div 10000 < 10" by simp
  have abs: "\<bar>d\<bar> = d" using assms(1) by simp
  show "fmt_f 4 d = [digit_char (k div 10000), CHR ''.'', digit_char (k mod 10000 div 1000 mod 10),
                      digit_char (k mod 10000 div 100 mod 10), digit_char (k mod 10000 div 10 mod 10),
                      digit_char (k mod 10000 mod 10)]"
    using assms(1) small
    by (simp add: fmt_f_def abs Let_def k_def [symmetric] show_nat_lt10 pad_digits_4)
qed

lemma fmt_f_4_rounded:
  assumes "0 \<le> d" and "d \<le> 1"
  shows "fmt_f 4 (real (nat (round_half_even (d * 10000))) / 10000) = fmt_f 4 d"
proof -
  define k where "k = nat (round_half_even (d * 10000))"
  have "round_half_even (real k) = int k"
    using round_half_even_of_int [of "int k"] by simp
  then have "nat (round_half_even (\<bar>real k / 10000\<bar> * 10 ^ 4)) = k" by simp
  moreover have "nat (round_half_even (\<bar>d\<bar> * 10 ^ 4)) = k"
    using assms(1) by (simp add: k_def)
  moreover have "\<not> real k / 10000 < 0" "\<not> d < 0" using assms(1) by simp_all
  ultimately show ?thesis
    unfolding k_def [symmetric] fmt_f_def Let_def by simp
qed

lemma decimal_value:
  fixes k :: nat
  assumes "k \<le> 10000"
  shows "real (k div 10000)
         + real (((k mod 10000 div 1000 mod 10 * 10 + k mod 10000 div 100 mod 10) * 10
                  + k mod 10000 div 10 mod 10) * 10 + k mod 10000 mod 10) / 10000
         = real k / 10000"
proof -
  have v: "((k mod 10000 div 1000 mod 10 * 10 + k mod 10000 div 100 mod 10) * 10
            + k mod 10000 div 10 mod 10) * 10 + k mod 10000 mod 10 = k mod 10000"
    by (rule four_digits_value) simp
  have "real k = real (k div 10000 * 10000 + k mod 10000)" by simp
  also have "\<dots> = real (k div 10000) * 10000 + real (k mod 10000)"
    by (simp only: of_nat_add of_nat_mult of_nat_numeral)
  finally show ?thesis unfolding v by (simp add: field_simps)
qed

lemma state_json_canonical:
  assumes "0 \<le> p" and "p \<le> 5" and "0 \<le> d" and "d \<le> 1" and "0 \<le> m" and "m \<le> 1"
    and "0 \<le> g" and "g \<le> 1" and "0 \<le> r" and "r \<le> 1"
  shows "length (state_json p d m g r) = 82"
    and "json_get_number (state_json p d m g r) ''preset'' = Some (real_of_int p)"
    and "json_get_number (state_json p d m g r) ''decay''
           = Some (real (nat (round_half_even (d * 10000))) / 10000)"
    and "json_get_number (state_json p d m g r) ''mix''
           = Some (real (nat (round_half_even (m * 10000))) / 10000)"
    and "json_get_number (state_json p d m g r) ''input_gain''
           = Some (real (nat (round_half_even (g * 10000))) / 10000)"
    and "json_get_number (state_json p d m g r) ''reverb_level''
           = Some (real (nat (round_half_even (r * 10000))) / 10000)"
proof -
  define kd where "kd = nat (round_half_even (d * 10000))"
  define km where "km = nat (round_half_even (m * 10000))"
  define kg where "kg = nat (round_half_even (g * 10000))"
  define kr where "kr = nat (round_half_even (r * 10000))"
  note fd = fmt_f_4_unit [OF assms(3,4), folded kd_def]
  note fm = fmt_f_4_unit [OF assms(5,6), folded km_def]
  note fg = fmt_f_4_unit [OF assms(7,8), folded kg_def]
  note fr = fmt_f_4_unit [OF assms(9,10), folded kr_def]
  have pn: "nat p < 10" using assms(1,2) by simp
  have fp: "fmt_d p = [digit_char (nat p)]"
    using assms(1) pn by (simp add: fmt_d_def show_nat_lt10)
  define x where "x = state_json p d m g r"
  have x: \<open>x = ''{"preset":'' @ [digit_char (nat p)]
     @ '',"decay":'' @ [digit_char (kd div 10000), CHR ''.'', digit_char (kd mod 10000 div 1000 mod 10),
          digit_char (kd mod 10000 div 100 mod 10), digit_char (kd mod 10000 div 10 mod 10),
          digit_char (kd mod 10000 mod 10)]
     @ '',"mix":'' @ [digit_char (km div 10000), CHR ''.'', digit_char (km mod 10000 div 1000 mod 10),
          digit_char (km mod 10000 div 100 mod 10), digit_char (km mod 10000 div 10 mod 10),
          digit_char (km mod 10000 mod 10)]
     @ '',"input_gain":'' @ [digit_char (kg div 10000), CHR ''.'', digit_char (kg mod 10000 div 1000 mod 10),
          digit_char (kg mod 10000 div 100 mod 10), digit_char (kg mod 10000 div 10 mod 10),
          digit_char (kg mod 10000 mod 10)]
     @ '',"reverb_level":'' @ [digit_char (kr div 10000), CHR ''.'', digit_char (kr mod 10000 div 1000 mod 10),
          digit_char (kr mod 10000 div 100 mod 10), digit_char (kr mod 10000 div 10 mod 10),
          digit_char (kr mod 10000 mod 10)]
     @ ''}''\<close>
    unfolding x_def state_json_def fp fd(2) fm(2) fg(2) fr(2) ..
  have small: "kd div 10000 < 10" "km div 10000 < 10" "kg div 10000 < 10" "kr div 10000 < 10"
    using fd(1) fm(1) fg(1) fr(1) by simp_all
  show "length (state_json p d m g r) = 82"
    unfolding x_def [symmetric] unfolding x by simp
  show "json_get_number (state_json p d m g r) ''preset'' = Some (real_of_int p)"
    unfolding x_def [symmetric] unfolding x using assms(1)
    by (subst json_state_text(1)) (simp_all add: pn small)
  have "json_get_number x ''decay'' = Some (real (kd div 10000)
         + real (((kd mod 10000 div 1000 mod 10 * 10 + kd mod 10000 div 100 mod 10) * 10
                  + kd mod 10000 div 10 mod 10) * 10 + kd mod 10000 mod 10) / 10000)"
    unfolding x by (rule json_state_text(2)) (simp_all add: pn small)
  then show "json_get_number (state_json p d m g r) ''decay'' = Some (real kd / 10000)"
    unfolding decimal_value [OF fd(1)] x_def .
  have "json_get_number x ''mix'' = Some (real (km div 10000)
         + real (((km mod 10000 div 1000 mod 10 * 10 + km mod 10000 div 100 mod 10) * 10
                  + km mod 10000 div 10 mod 10) * 10 + km mod 10000 mod 10) / 10000)"
    unfolding x by (rule json_state_text(3)) (simp_all add: pn small)
  then show "json_get_number (state_json p d m g r) ''mix'' = Some (real km / 10000)"
    unfolding decimal_value [OF fm(1)] x_def .
  have "json_get_number x ''input_gain'' = Some (real (kg div 10000)
         + real (((kg mod 10000 div 1000 mod 10 * 10 + kg mod 10000 div 100 mod 10) * 10
                  + kg mod 10000 div 10 mod 10) * 10 + kg mod 10000 mod 10) / 10000)"
    unfolding x by (rule json_state_text(4)) (simp_all add: pn small)
  then show "json_get_number (state_json p d m g r) ''input_gain'' = Some (real kg / 10000)"
    unfolding decimal_value [OF fg(1)] x_def .
  have "json_get_number x ''reverb_level'' = Some (real (kr div 10000)
         + real (((kr mod 10000 div 1000 mod 10 * 10 + kr mod 10000 div 100 mod 10) * 10
                  + kr mod 10000 div 10 mod 10) * 10 + kr mod 10000 mod 10) / 10000)"
    unfolding x by (rule json_state_text(5)) (simp_all add: pn small)
  then show "json_get_number (state_json p d m g r) ''reverb_level'' = Some (real kr / 10000)"
    unfolding decimal_value [OF fr(1)] x_def .
qed

lemma state_round_trip_values:
  assumes "json_get_number x ''preset'' = Some (real_of_int p)" and "0 \<le> p" and "p \<le> 5"
    and "json_get_number x ''decay'' = Some d" and "0 \<le> d" and "d \<le> 1"
    and "json_get_number x ''mix'' = Some m" and "0 \<le> m" and "m \<le> 1"
    and "json_get_number x ''input_gain'' = Some g" and "0 \<le> g" and "g \<le> 1"
    and "json_get_number x ''reverb_level'' = Some r" and "0 \<le> r" and "r \<le> 1"
    and "82 < buf_len"
  shows "state_round_trip inst x buf_len = Some (state_json p d m g r, 82)"
proof -
  obtain inst' where set: "v2_set_param inst ''state'' x = Some inst'"
    and vals: "preset_idx inst' = p" "decay inst' = d" "mix inst' = m"
      "input_gain inst' = g" "reverb_level inst' = r"
    using v2_set_param_state_values [OF assms(1-15), of inst] by blast
  have len: "length (state_json p d m g r) = 82"
    by (rule state_json_canonical(1)) (rule assms)+
  show ?thesis
    using assms(16) len
    by (simp add: state_round_trip_def set v2_get_param_state vals c_snprintf_def)
qed




text \<open>
  A text in the standard form (as \<^const>\<open>v2_get_param\<close> writes it) comes back unchanged,
  character by character.
\<close>

lemma state_round_trip_canonical:
  assumes "0 \<le> p" and "p \<le> 5" and "0 \<le> d" and "d \<le> 1" and "0 \<le> m" and "m \<le> 1"
    and "0 \<le> g" and "g \<le> 1" and "0 \<le> r" and "r \<le> 1" and "82 < buf_len"
  shows "state_round_trip inst (state_json p d m g r) buf_len = Some (state_json p d m g r, 82)"
proof -
  define kd where "kd = nat (round_half_even (d * 10000))"
  define km where "km = nat (round_half_even (m * 10000))"
  define kg where "kg = nat (round_half_even (g * 10000))"
  define kr where "kr = nat (round_half_even (r * 10000))"
  note can = state_json_canonical [OF assms(1-10), folded kd_def km_def kg_def kr_def]
  have k: "kd \<le> 10000" "km \<le> 10000" "kg \<le> 10000" "kr \<le> 10000"
    unfolding kd_def km_def kg_def kr_def
    by (rule fmt_f_4_unit(1); rule assms)+
  have rng: "0 \<le> real kd / 10000" "real kd / 10000 \<le> 1" "0 \<le> real km / 10000" "real km / 10000 \<le> 1"
    "0 \<le> real kg / 10000" "real kg / 10000 \<le> 1" "0 \<le> real kr / 10000" "real kr / 10000 \<le> 1"
    using k by simp_all
  have same: "state_json p (real kd / 10000) (real km / 10000) (real kg / 10000) (real kr / 10000)
              = state_json p d m g r"
    unfolding state_json_def kd_def km_def kg_def kr_def
      fmt_f_4_rounded [OF assms(3,4)] fmt_f_4_rounded [OF assms(5,6)]
      fmt_f_4_rounded [OF assms(7,8)] fmt_f_4_rounded [OF assms(9,10)] ..
  show ?thesis
    using state_round_trip_values [OF can(2) assms(1,2) can(3) rng(1,2) can(4) rng(3,4)
        can(5) rng(5,6) can(6) rng(7,8) assms(11), of inst]
    unfolding same .
qed


end
